theory Spec2Isabelle
  imports Main "HOL-Library.AList" "HOL-Library.Multiset"
begin

section \<open>The backing store\<close>

text \<open>
  The converter reads one table of an SQLite database. A row gives a text cell to every
  column name; the table lists its columns and its rows in the order in which the engine
  returns them for a query without an ordering clause. Column and table names are plain
  SQL identifiers and cells are non-NULL text.
\<close>

type_synonym row = "string \<Rightarrow> string"

record table =
  table_name :: string
  table_columns :: "string list"
  table_rows :: "row list"

type_synonym database = "table list"

text \<open>
  What \<open>sqlite3\<close> finds at a path: a file or directory that \<open>sqlite3.Connection\<close>
  cannot open, a file that opens but is not a database (the first statement executed on
  it fails), or a database. At a path that does not exist \<open>sqlite3\<close> creates a
  database without tables.
\<close>

datatype storage = Cannot_Open | Not_A_Database | Database database

datatype exception =
    IndexError
  | ZeroDivisionError
  | TypeError
  | OSError
  | OperationalError
  | DatabaseError
  | SystemExit int

text \<open>The SQL templates of the module, with the values that \<open>format\<close> fills in.\<close>

datatype statement =
    SQL_TABLE_EXISTS
  | SQLITE_COLUMNS_OF_TABLE string
  | SQL_SELECT_SOURCES string string
  | SQL_GET_INCHIKEY string string
  | SQL_GET_ID_WITH_INCHIKEY string string string string

definition find_table :: "database \<Rightarrow> string \<Rightarrow> table option" where
  "find_table db t = find (\<lambda>T. table_name T = t) db"

text \<open>
  How the engine reads a value that the templates paste between double quotes
  (\<open>"{}"\<close>). A double-quoted token is an identifier: when it names a column of the
  table, in any case of the letters, it stands for the cell of the row in that column.
  The three names of the row number are read as columns too; a row gives its number, as
  text, in the cell \<open>rowid\<close>. Any other token is read as the string literal. A value
  that holds a double quote ends the token early; the statement that results is taken to
  be one the parser rejects.
\<close>

definition ascii_lower_char :: "char \<Rightarrow> char" where
  "ascii_lower_char c =
     (case map_of (zip ''ABCDEFGHIJKLMNOPQRSTUVWXYZ'' ''abcdefghijklmnopqrstuvwxyz'') c of
        None \<Rightarrow> c
      | Some l \<Rightarrow> l)"

definition ascii_lower :: "string \<Rightarrow> string" where
  "ascii_lower s = map ascii_lower_char s"

definition column_named :: "table \<Rightarrow> string \<Rightarrow> string option" where
  "column_named T v =
     (case find (\<lambda>c. ascii_lower c = ascii_lower v) (table_columns T) of
        Some c \<Rightarrow> Some c
      | None \<Rightarrow>
          if ascii_lower v = ''rowid'' \<or> ascii_lower v = ''oid'' \<or> ascii_lower v = ''_rowid_''
          then Some ''rowid''
          else None)"

definition quoted :: "table \<Rightarrow> string \<Rightarrow> exception + (row \<Rightarrow> string)" where
  "quoted T v =
     (if CHR 0x22 \<in> set v then Inl OperationalError
      else case column_named T v of
             Some c \<Rightarrow> Inr (\<lambda>r. r c)
           | None \<Rightarrow> Inr (\<lambda>r. v))"

text \<open>
  What \<open>cursor.execute(...).fetchall()\<close> returns for each template. Every template but
  the pragma selects one column, so a tuple is modelled by its only component; a tuple of
  \<open>PRAGMA table_info\<close> is modelled by its first two components (position, name).
  A statement that names a missing table or column raises \<open>OperationalError\<close>, and so
  does one the parser rejects; any statement on a file that is not a database raises
  \<open>DatabaseError\<close>. \<open>SELECT DISTINCT\<close> lists every value where it first occurs.
\<close>

definition fetch_table_exists :: "storage \<Rightarrow> exception + string list" where
  "fetch_table_exists st =
     (case st of
        Cannot_Open \<Rightarrow> Inl OperationalError
      | Not_A_Database \<Rightarrow> Inl DatabaseError
      | Database db \<Rightarrow> Inr (map table_name db))"

definition fetch_columns_of_table ::
  "storage \<Rightarrow> string \<Rightarrow> exception + (nat \<times> string) list" where
  "fetch_columns_of_table st t =
     (case st of
        Cannot_Open \<Rightarrow> Inl OperationalError
      | Not_A_Database \<Rightarrow> Inl DatabaseError
      | Database db \<Rightarrow>
          (case find_table db t of
             None \<Rightarrow> Inr []
           | Some T \<Rightarrow> Inr (enumerate 0 (table_columns T))))"

definition fetch_select_sources ::
  "storage \<Rightarrow> string \<Rightarrow> string \<Rightarrow> exception + string list" where
  "fetch_select_sources st field t =
     (case st of
        Cannot_Open \<Rightarrow> Inl OperationalError
      | Not_A_Database \<Rightarrow> Inl DatabaseError
      | Database db \<Rightarrow>
          (case find_table db t of
             None \<Rightarrow> Inl OperationalError
           | Some T \<Rightarrow>
               if field \<in> set (table_columns T)
               then Inr (rev (remdups (rev (map (\<lambda>r. r field) (table_rows T)))))
               else Inl OperationalError))"

definition fetch_get_inchikey ::
  "storage \<Rightarrow> string \<Rightarrow> string \<Rightarrow> exception + string list" where
  "fetch_get_inchikey st t x =
     (case st of
        Cannot_Open \<Rightarrow> Inl OperationalError
      | Not_A_Database \<Rightarrow> Inl DatabaseError
      | Database db \<Rightarrow>
          (case find_table db t of
             None \<Rightarrow> Inl OperationalError
           | Some T \<Rightarrow>
               if ''id'' \<in> set (table_columns T) \<and> ''inchikey'' \<in> set (table_columns T)
               then (case quoted T x of
                       Inl e \<Rightarrow> Inl e
                     | Inr val \<Rightarrow>
                         Inr (map (\<lambda>r. r ''inchikey'')
                                (filter (\<lambda>r. r ''id'' = val r) (table_rows T))))
               else Inl OperationalError))"

definition fetch_get_id_with_inchikey ::
  "storage \<Rightarrow> string \<Rightarrow> string \<Rightarrow> string \<Rightarrow> string \<Rightarrow> exception + string list" where
  "fetch_get_id_with_inchikey st t k field v =
     (case st of
        Cannot_Open \<Rightarrow> Inl OperationalError
      | Not_A_Database \<Rightarrow> Inl DatabaseError
      | Database db \<Rightarrow>
          (case find_table db t of
             None \<Rightarrow> Inl OperationalError
           | Some T \<Rightarrow>
               if ''id'' \<in> set (table_columns T) \<and> ''inchikey'' \<in> set (table_columns T)
                  \<and> field \<in> set (table_columns T)
               then (case quoted T k of
                       Inl e \<Rightarrow> Inl e
                     | Inr key \<Rightarrow>
                         (case quoted T v of
                            Inl e \<Rightarrow> Inl e
                          | Inr tag \<Rightarrow>
                              Inr (map (\<lambda>r. r ''id'')
                                     (filter (\<lambda>r. r ''inchikey'' = key r \<and> r field = tag r)
                                        (table_rows T)))))
               else Inl OperationalError))"

section \<open>Effects\<close>

datatype level = DEBUG | INFO | WARNING | ERROR | CRITICAL

text \<open>A formatted log message: literal text and the interpolated values.\<close>

datatype part = S string | N nat | Q statement | Ratio nat nat

datatype event =
    PathExists string
  | Connect string
  | Execute statement
  | Log string level "part list"
  | Print "part list"
  | Open string
  | Write string bool "string set"

text \<open>
  The operating system as the script sees it: which paths exist
  (\<open>os.path.exists\<close>), the directory part of a path (\<open>os.path.dirname\<close>),
  what \<open>sqlite3\<close> finds at a path, the lines \<open>readlines\<close> yields for a file
  (\<open>None\<close> when it cannot be opened), and whether a file can be opened for writing.
  The sink of the log, set up by \<open>logging.basicConfig\<close>, is taken to be available.
\<close>

record world =
  path_exists :: "string \<Rightarrow> bool"
  path_dirname :: "string \<Rightarrow> string"
  sqlite_file :: "string \<Rightarrow> storage"
  readlines :: "string \<Rightarrow> string list option"
  writable :: "string \<Rightarrow> bool"

type_synonym 'a action = "event list \<times> (exception + 'a)"

text \<open>Sequencing: an exception ends the run; the events of both parts are kept in order.\<close>

definition and_then :: "'a action \<Rightarrow> ('a \<Rightarrow> 'b action) \<Rightarrow> 'b action" where
  "and_then m f =
     (case m of
        (evs, Inl e) \<Rightarrow> (evs, Inl e)
      | (evs, Inr a) \<Rightarrow> (case f a of (evs', r) \<Rightarrow> (evs @ evs', r)))"

section \<open>Opening the database\<close>

text \<open>
  \<open>sqlite3.Connection(database)\<close>: raises \<open>OperationalError\<close> when the path
  cannot be opened, and gives the connection otherwise.
\<close>

definition connect :: "world \<Rightarrow> string \<Rightarrow> storage action" where
  "connect w database =
     (case sqlite_file w database of
        Cannot_Open \<Rightarrow> ([Connect database], Inl OperationalError)
      | Not_A_Database \<Rightarrow> ([Connect database], Inr Not_A_Database)
      | Database db \<Rightarrow> ([Connect database], Inr (Database db)))"

section \<open>convert\<close>

text \<open>
  A Python dictionary from strings to strings: the items in insertion order, every key
  once. Assignment replaces the value of a key that is present and appends a new key.
\<close>

type_synonym dict = "(string \<times> string) list"

text \<open>
  The body of the loop of \<open>convert\<close> for one metabolite, on the state
  \<open>(founded_ids, unavailable_ids)\<close>. \<open>results[0][0]\<close> is guarded by the length test;
  \<open>fetchall()[0][0]\<close> of the second query is not, and raises \<open>IndexError\<close> on an empty
  result. The test on \<open>len(molecules)\<close> has \<open>pass\<close> as its body.
\<close>

definition convert_step ::
  "storage \<Rightarrow> string \<Rightarrow> string \<Rightarrow> string \<Rightarrow> string \<Rightarrow> dict \<times> string set
     \<Rightarrow> (dict \<times> string set) action" where
  "convert_step db table id' field metabolite st =
     (case st of (founded_ids, unavailable_ids) \<Rightarrow>
      (let ev1 = [Log ''root'' DEBUG [S '' Executing '', Q (SQL_GET_INCHIKEY table metabolite)],
                  Execute (SQL_GET_INCHIKEY table metabolite)]
       in case fetch_get_inchikey db table metabolite of
            Inl e \<Rightarrow> (ev1, Inl e)
          | Inr results \<Rightarrow>
              if length results = 0 then
                (ev1 @ [Log ''convert'' WARNING
                          [S '' Metabolite with ID '', S metabolite, S '' not found'']],
                 Inr (founded_ids, insert metabolite unavailable_ids))
              else
                (let inchikey = results ! 0;
                     ev2 = ev1 @
                       [Log ''convert'' DEBUG
                          [S '' Found inchikey '', S inchikey, S '' with ID  '', S metabolite],
                        Log ''convert'' DEBUG [Q (SQL_GET_ID_WITH_INCHIKEY table inchikey field id')],
                        Execute (SQL_GET_ID_WITH_INCHIKEY table inchikey field id')]
                 in case fetch_get_id_with_inchikey db table inchikey field id' of
                      Inl e \<Rightarrow> (ev2, Inl e)
                    | Inr [] \<Rightarrow> (ev2, Inl IndexError)
                    | Inr (molecules # _) \<Rightarrow>
                        (let founded_ids' =
                               (if length molecules = 0 then founded_ids else founded_ids)
                         in (ev2, Inr (AList.update metabolite molecules founded_ids',
                                       unavailable_ids))))))"

text \<open>
  The loop \<open>for metabolite in input\<close>. The input is a Python set; the list is the order in
  which the set is iterated, so it names every element once.
\<close>

fun convert_loop ::
  "storage \<Rightarrow> string \<Rightarrow> string \<Rightarrow> string \<Rightarrow> string list \<Rightarrow> dict \<times> string set
     \<Rightarrow> (dict \<times> string set) action" where
  "convert_loop db table id' field [] st = ([], Inr st)"
| "convert_loop db table id' field (metabolite # rest) st =
     and_then (convert_step db table id' field metabolite st)
       (\<lambda>st'. convert_loop db table id' field rest st')"

definition convert ::
  "world \<Rightarrow> string list \<Rightarrow> string \<Rightarrow> string \<Rightarrow> string \<Rightarrow> string
     \<Rightarrow> (dict \<times> string set) action" where
  "convert w input database table id' field =
     and_then (connect w database) (\<lambda>connection.
     and_then
       ([Log ''convert'' INFO [S '' Querying '', N (length input), S '' metabolites'']],
        Inr ())
       (\<lambda>_. convert_loop connection table id' field input ([], {})))"

section \<open>validation\<close>

text \<open>
  The checks of \<open>validation\<close> in program order, each with the log lines it writes.
  The first four return \<open>False\<close> when they fail; the two checks of the file paths only log.
  Nothing catches what the connection or a statement raises.
\<close>

definition validation ::
  "world \<Rightarrow> string \<Rightarrow> string \<Rightarrow> string \<Rightarrow> string \<Rightarrow> string \<Rightarrow> string \<Rightarrow> string
     \<Rightarrow> bool action" where
  "validation w id' database table input_file output_file logfile field =
     (let ev1 = [PathExists database] in
      if \<not> path_exists w database then
        (ev1 @ [Log ''validation'' CRITICAL
                  [S '' Not Found: SQLite database '', S database,
                   S ''. Pherhaps a typo or incorrect path?'']],
         Inr False)
      else
        and_then
          (and_then
             (ev1 @ [Log ''validation'' INFO [S '' Database '', S database, S '' found.'']],
              Inr ())
             (\<lambda>_. connect w database))
          (\<lambda>connector.
        (let ev2 = [Execute SQL_TABLE_EXISTS] in
         case fetch_table_exists connector of
           Inl e \<Rightarrow> (ev2, Inl e)
         | Inr tables \<Rightarrow>
            if table \<notin> set tables then
              (ev2 @ [Log ''root'' CRITICAL
                        [S '' Table '', S table, S '' not found in '', S database,
                         S ''. Pherhaps a typo or incorrect path?'']],
               Inr False)
            else
              (let ev3 = ev2 @ [Log ''validation'' INFO [S '' Table '', S table, S '' found''],
                                Execute (SQLITE_COLUMNS_OF_TABLE table)]
               in case fetch_columns_of_table connector table of
                    Inl e \<Rightarrow> (ev3, Inl e)
                  | Inr table_info \<Rightarrow>
                     (let columns = map snd table_info
                      in if field \<notin> set columns then
                    (ev3 @ [Log ''root'' CRITICAL
                              [S '' Field '', S field, S '' not found in table '', S table,
                               S ''. Pherhaps a typo?'']],
                     Inr False)
                  else
                    (let ev4 = ev3 @ [Execute (SQL_SELECT_SOURCES field table)]
                     in case fetch_select_sources connector field table of
                          Inl e \<Rightarrow> (ev4, Inl e)
                        | Inr sources \<Rightarrow>
                            if id' \<notin> set sources then
                              (ev4 @ [Log ''validation'' CRITICAL
                                        [S ''Source '', S id', S '' not found in '', S table,
                                         S '' in column '', S field, S ''. Pherhaps a typo?'']],
                               Inr False)
                            else
                              (ev4 @ [Log ''validation'' INFO [S '' Source '', S id', S '' found''],
                                      PathExists input_file]
                                   @ (if \<not> path_exists w input_file then
                                        [Log ''validation'' CRITICAL
                                           [S ''Input file: '', S input_file,
                                            S '' not found. Check typos or correct the path'']]
                                      else [])
                                   @ [Log ''root'' INFO [S '' Input file '', S input_file, S '' found''],
                                      PathExists (path_dirname w output_file)]
                                   @ (if \<not> path_exists w (path_dirname w output_file) then
                                        [Log ''validation'' CRITICAL
                                           [S ''Output folder: '', S input_file,
                                            S '' not found. Check typos or correct the path'']]
                                      else [])
                                   @ [Log ''root'' INFO
                                        [S '' Output file '', S output_file, S '' can be created''],
                                      Log ''validation'' INFO
                                        [S '' Validation finished, proceeding with conversion'']],
                               Inr True)))))))"

section \<open>Reading the input, writing the results\<close>

text \<open>\<open>str.strip(chars)\<close>: drops the characters of \<open>chars\<close> from both ends.\<close>

definition strip :: "string \<Rightarrow> string \<Rightarrow> string" where
  "strip chars x =
     rev (dropWhile (\<lambda>c. c \<in> set chars) (rev (dropWhile (\<lambda>c. c \<in> set chars) x)))"

text \<open>
  \<open>_parse_input_file\<close>. The set it returns is a list without repetitions. With
  \<open>gz\<close> the file is opened by \<open>gzip.open\<close> in its default binary mode, the lines are
  bytes, and stripping a text newline from the first of them raises \<open>TypeError\<close>.
\<close>

definition parse_input_file :: "world \<Rightarrow> string \<Rightarrow> bool \<Rightarrow> string list action" where
  "parse_input_file w file gz =
     (case readlines w file of
        None \<Rightarrow> ([Open file], Inl OSError)
      | Some lines \<Rightarrow>
          ([Open file, Log ''_parse_input_file'' INFO [S ''Parsing file: '', S file]],
           if gz \<and> lines \<noteq> [] then Inl TypeError
           else Inr (remdups (map (strip [CHR 0x0A]) lines))))"

definition save_compounds :: "world \<Rightarrow> string \<Rightarrow> bool \<Rightarrow> string set \<Rightarrow> unit action" where
  "save_compounds w file gzipped compounds =
     (if writable w file then ([Open file, Write file gzipped compounds], Inr ())
      else ([Open file], Inl OSError))"

section \<open>main\<close>

record args =
  arg_input :: string
  arg_output :: string
  arg_database :: string
  arg_table :: string
  arg_field :: string
  arg_id :: string
  arg_gzipped_input :: bool
  arg_gzipped_output :: bool
  arg_logfile :: string
  arg_loglevel :: string
  arg_discarded_file :: string

definition parse_loglevel :: "string \<Rightarrow> level action" where
  "parse_loglevel loglevel =
     (if loglevel = ''debug'' then ([], Inr DEBUG)
      else if loglevel = ''info'' then ([], Inr INFO)
      else if loglevel = ''warn'' then ([], Inr WARNING)
      else if loglevel = ''error'' then ([], Inr ERROR)
      else if loglevel = ''critical'' then ([], Inr CRITICAL)
      else ([Print [S ''Error: invalid loglevel '', S loglevel,
                    S ''. Valid values are: debug, info, warn, error, critical'']],
            Inl (SystemExit (- 1))))"

text \<open>
  \<open>main\<close>, from the parsed arguments on. The two summary lines divide by the number of
  input compounds; Python raises \<open>ZeroDivisionError\<close> when it is zero, while the message
  is being formatted.
\<close>

definition main :: "world \<Rightarrow> args \<Rightarrow> unit action" where
  "main w args =
     and_then (parse_loglevel (arg_loglevel args)) (\<lambda>loglevel.
     and_then (validation w (arg_id args) (arg_database args) (arg_table args)
                 (arg_input args) (arg_output args) (arg_logfile args) (arg_field args))
       (\<lambda>valid.
     if \<not> valid then
       ([Log ''mbroleplus'' INFO [S ''Input commands not valid. Exiting...'']],
        Inl (SystemExit 1))
     else
     and_then (parse_input_file w (arg_input args) (arg_gzipped_input args))
       (\<lambda>input_compounds.
     and_then (convert w input_compounds (arg_database args) (arg_table args)
                 (arg_id args) (arg_field args))
       (\<lambda>(converted, unavailable).
     if length input_compounds = 0 then ([], Inl ZeroDivisionError)
     else
     and_then
       ([Log ''mbroleplus'' INFO
           [S '' Found '', N (length (map fst converted)), S '' IDs ('',
            Ratio (length (map fst converted)) (length input_compounds), S ''%)''],
         Log ''mbroleplus'' INFO
           [S '' '', N (card unavailable), S '' metabolites not found ('',
            Ratio (card unavailable) (length input_compounds), S '')'']],
        Inr ())
       (\<lambda>_.
     and_then (save_compounds w (arg_output args) (arg_gzipped_output args) (set (map snd converted)))
       (\<lambda>_.
     save_compounds w (arg_discarded_file args) False unavailable))))))"

text \<open>
  The exit status of the interpreter: 0 when \<open>main\<close> returns, the argument of
  \<open>sys.exit\<close> (as a byte) for \<open>SystemExit\<close>, 1 for any other uncaught exception.
\<close>

fun exit_code :: "exception + unit \<Rightarrow> int" where
  "exit_code (Inr _) = 0"
| "exit_code (Inl (SystemExit n)) = n mod 256"
| "exit_code (Inl _) = 1"

section \<open>Observations used in the statements\<close>

text \<open>
  The outcome of the two queries for one identifier: an exception, no match (\<open>None\<close>),
  or the identifier that \<open>convert\<close> records.
\<close>

definition outcome ::
  "storage \<Rightarrow> string \<Rightarrow> string \<Rightarrow> string \<Rightarrow> string \<Rightarrow> exception + string option" where
  "outcome db table id' field x =
     (case fetch_get_inchikey db table x of
        Inl e \<Rightarrow> Inl e
      | Inr [] \<Rightarrow> Inr None
      | Inr (k # _) \<Rightarrow>
          (case fetch_get_id_with_inchikey db table k field id' of
             Inl e \<Rightarrow> Inl e
           | Inr [] \<Rightarrow> Inl IndexError
           | Inr (y # _) \<Rightarrow> Inr (Some y)))"

text \<open>The statements a run executes, in order.\<close>

fun executed :: "event list \<Rightarrow> statement list" where
  "executed [] = []"
| "executed (Execute s # evs) = s # executed evs"
| "executed (_ # evs) = executed evs"


text \<open>The two queries of the resolution.\<close>

fun is_resolution :: "event \<Rightarrow> bool" where
  "is_resolution (Execute (SQL_GET_INCHIKEY _ _)) = True"
| "is_resolution (Execute (SQL_GET_ID_WITH_INCHIKEY _ _ _ _)) = True"
| "is_resolution _ = False"

text \<open>
  The four checks of the backing store as the specification words them: the relation
  exists in the storage, the lookup field is a column of it, the target tag is among the
  values of that field. What is not a database holds no relation.
\<close>

definition tables_of :: "storage \<Rightarrow> database" where
  "tables_of st = (case st of Database db \<Rightarrow> db | _ \<Rightarrow> [])"

definition relation_found :: "storage \<Rightarrow> string \<Rightarrow> bool" where
  "relation_found st table = (table \<in> set (map table_name (tables_of st)))"

definition field_found :: "storage \<Rightarrow> string \<Rightarrow> string \<Rightarrow> bool" where
  "field_found st table field =
     (case find_table (tables_of st) table of
        None \<Rightarrow> False
      | Some T \<Rightarrow> field \<in> set (table_columns T))"

definition tag_found :: "storage \<Rightarrow> string \<Rightarrow> string \<Rightarrow> string \<Rightarrow> bool" where
  "tag_found st table field tag =
     (case find_table (tables_of st) table of
        None \<Rightarrow> False
      | Some T \<Rightarrow> tag \<in> set (map (\<lambda>r. r field) (table_rows T)))"


text \<open>
  A value that the engine reads as the string literal: it holds no double quote and names
  no column.
\<close>

definition literal :: "table \<Rightarrow> string \<Rightarrow> bool" where
  "literal T v = (CHR 0x22 \<notin> set v \<and> column_named T v = None)"

text \<open>The key of the first row with an identifier, if there is one, is such a value.\<close>

definition first_key_literal :: "table \<Rightarrow> string \<Rightarrow> bool" where
  "first_key_literal T x =
     (case find (\<lambda>r. r ''id'' = x) (table_rows T) of
        None \<Rightarrow> True
      | Some r \<Rightarrow> literal T (r ''inchikey''))"


text \<open>
  The match of the specification: every distinct identifier of the rows that carry the
  canonical key and the target tag.
\<close>

definition spec_match :: "table \<Rightarrow> string \<Rightarrow> string \<Rightarrow> string \<Rightarrow> string set" where
  "spec_match T field tag k =
     set (map (\<lambda>r. r ''id'')
            (filter (\<lambda>r. r ''inchikey'' = k \<and> r field = tag) (table_rows T)))"

text \<open>The targets a dictionary records for an identifier.\<close>

definition recorded :: "dict \<Rightarrow> string \<Rightarrow> string set" where
  "recorded d x = set (map snd (filter (\<lambda>kv. fst kv = x) d))"

text \<open>
  The partition a result stands for, when there is one: the dictionary as a map, and the
  set.
\<close>

definition partition_of ::
  "exception + dict \<times> string set \<Rightarrow> ((string \<rightharpoonup> string) \<times> string set) option" where
  "partition_of r = (case r of Inl e \<Rightarrow> None | Inr (d, u) \<Rightarrow> Some (map_of d, u))"

text \<open>
  The same world with other lines in one file, and lines 235 and 236 of \<open>main\<close>:
  the input file is parsed and the set it yields is converted.
\<close>

definition with_lines :: "world \<Rightarrow> string \<Rightarrow> string list \<Rightarrow> world" where
  "with_lines w file lines = w\<lparr>readlines := (readlines w)(file \<mapsto> lines)\<rparr>"

definition resolve_file ::
  "world \<Rightarrow> string \<Rightarrow> bool \<Rightarrow> string \<Rightarrow> string \<Rightarrow> string \<Rightarrow> string
     \<Rightarrow> (dict \<times> string set) action" where
  "resolve_file w file gz database table id' field =
     and_then (parse_input_file w file gz)
       (\<lambda>input_compounds. convert w input_compounds database table id' field)"

section \<open>Two small relations\<close>

text \<open>A row: its number, its identifier, its canonical key and its catalog.\<close>

definition mk_row :: "string \<Rightarrow> string \<Rightarrow> string \<Rightarrow> string \<Rightarrow> row" where
  "mk_row n i k d =
     (\<lambda>c. if c = ''id'' then i else if c = ''inchikey'' then k
          else if c = ''database'' then d else if c = ''rowid'' then n else [])"

text \<open>The relation of the scenario in the specification.\<close>

definition scenario :: table where
  "scenario =
     \<lparr>table_name = ''mbroleplus'',
      table_columns = [''id'', ''inchikey'', ''database''],
      table_rows =
        [mk_row ''1'' ''C001'' ''ABC123'' ''KEGG'',
         mk_row ''2'' ''HMDB0001'' ''ABC123'' ''HMDB'',
         mk_row ''3'' ''C999'' ''XYZ999'' ''KEGG'']\<rparr>"

text \<open>
  A relation with a key listed twice under one tag, an identifier listed under two keys,
  and an empty identifier.
\<close>

definition compounds :: table where
  "compounds =
     \<lparr>table_name = ''mbroleplus'',
      table_columns = [''id'', ''inchikey'', ''database''],
      table_rows =
        [mk_row ''1'' ''C001'' ''ABC123'' ''KEGG'',
         mk_row ''2'' ''HMDB0001'' ''ABC123'' ''HMDB'',
         mk_row ''3'' ''HMDB0002'' ''ABC123'' ''HMDB'',
         mk_row ''4'' ''C999'' ''XYZ999'' ''KEGG'',
         mk_row ''5'' ''C001'' ''QQQ777'' ''ChEBI'',
         mk_row ''6'' ''HMDB0777'' ''QQQ777'' ''HMDB'',
         mk_row ''7'' ''C500'' ''EEE555'' ''KEGG'',
         mk_row ''8'' [] ''EEE555'' ''HMDB'']\<rparr>"

definition host :: "table \<Rightarrow> string list \<Rightarrow> world" where
  "host T lines =
     \<lparr>path_exists = (\<lambda>p. p \<in> {''db.sqlite'', ''in.txt'', ''.''}),
      path_dirname = (\<lambda>p. if p = ''./out.txt'' then ''.'' else []),
      sqlite_file = (\<lambda>p. if p = ''db.sqlite'' then Database [T] else Database []),
      readlines = (\<lambda>p. if p = ''in.txt'' then Some lines else None),
      writable = (\<lambda>p. p \<in> {''./out.txt'', ''discarded.txt''})\<rparr>"


definition cli :: "string \<Rightarrow> args" where
  "cli target =
     \<lparr>arg_input = ''in.txt'', arg_output = ''./out.txt'', arg_database = ''db.sqlite'',
      arg_table = ''mbroleplus'', arg_field = ''database'', arg_id = target,
      arg_gzipped_input = False, arg_gzipped_output = False,
      arg_logfile = ''/dev/stdout'', arg_loglevel = ''info'',
      arg_discarded_file = ''discarded.txt''\<rparr>"

section \<open>Sequencing and the queries of the validation\<close>

lemma snd_and_then:
  "snd (and_then m f) = (case snd m of Inl e \<Rightarrow> Inl e | Inr a \<Rightarrow> snd (f a))"
  by (auto simp: and_then_def split: prod.splits sum.splits)

lemma fst_and_then:
  "fst (and_then m f) = (case snd m of Inl e \<Rightarrow> fst m | Inr a \<Rightarrow> fst m @ fst (f a))"
  by (auto simp: and_then_def split: prod.splits sum.splits)

lemma find_table_None: "(find_table db t = None) = (t \<notin> set (map table_name db))"
  by (auto simp: find_table_def find_None_iff)

lemma tables_iff: "(t \<in> table_name ` set db) = relation_found (Database db) t"
  by (simp add: relation_found_def tables_of_def)

lemma columns_iff:
  "\<exists>info. fetch_columns_of_table (Database db) t = Inr info
      \<and> (field \<in> snd ` set info) = field_found (Database db) t field"
proof (cases "find_table db t")
  case None
  then show ?thesis
    by (simp add: fetch_columns_of_table_def field_found_def tables_of_def)
next
  case (Some T)
  have "snd ` set (enumerate 0 (table_columns T)) = set (map snd (enumerate 0 (table_columns T)))"
    by (simp only: set_map)
  also have "\<dots> = set (table_columns T)"
    by (simp only: map_snd_enumerate)
  finally show ?thesis using Some
    by (simp add: fetch_columns_of_table_def field_found_def tables_of_def)
qed

lemma sources_iff:
  assumes "field_found (Database db) t field"
  shows "\<exists>srcs. fetch_select_sources (Database db) field t = Inr srcs
           \<and> (v \<in> set srcs) = tag_found (Database db) t field v"
  using assms
  by (auto simp: fetch_select_sources_def field_found_def tag_found_def tables_of_def
           split: option.splits)

lemma validation_missing:
  assumes "\<not> path_exists w database"
  shows "validation w id' database table input_file output_file logfile field =
       ([PathExists database,
         Log ''validation'' CRITICAL
           [S '' Not Found: SQLite database '', S database,
            S ''. Pherhaps a typo or incorrect path?'']], Inr False)"
  using assms by (simp add: validation_def)

lemma validation_cannot_open:
  assumes "path_exists w database" and "sqlite_file w database = Cannot_Open"
  shows "validation w id' database table input_file output_file logfile field =
       ([PathExists database,
         Log ''validation'' INFO [S '' Database '', S database, S '' found.''],
         Connect database], Inl OperationalError)"
  using assms by (simp add: validation_def and_then_def connect_def)

lemma validation_not_a_database:
  assumes "path_exists w database" and "sqlite_file w database = Not_A_Database"
  shows "validation w id' database table input_file output_file logfile field =
       ([PathExists database,
         Log ''validation'' INFO [S '' Database '', S database, S '' found.''],
         Connect database, Execute SQL_TABLE_EXISTS], Inl DatabaseError)"
  using assms by (simp add: validation_def and_then_def connect_def fetch_table_exists_def)

lemma validation_database:
  assumes ex: "path_exists w database" and st: "sqlite_file w database = Database db"
  shows "validation w id' database table input_file output_file logfile field =
    (if \<not> relation_found (Database db) table then
       ([PathExists database,
         Log ''validation'' INFO [S '' Database '', S database, S '' found.''],
         Connect database, Execute SQL_TABLE_EXISTS,
         Log ''root'' CRITICAL
           [S '' Table '', S table, S '' not found in '', S database,
            S ''. Pherhaps a typo or incorrect path?'']], Inr False)
     else if \<not> field_found (Database db) table field then
       ([PathExists database,
         Log ''validation'' INFO [S '' Database '', S database, S '' found.''],
         Connect database, Execute SQL_TABLE_EXISTS,
         Log ''validation'' INFO [S '' Table '', S table, S '' found''],
         Execute (SQLITE_COLUMNS_OF_TABLE table),
         Log ''root'' CRITICAL
           [S '' Field '', S field, S '' not found in table '', S table,
            S ''. Pherhaps a typo?'']], Inr False)
     else if \<not> tag_found (Database db) table field id' then
       ([PathExists database,
         Log ''validation'' INFO [S '' Database '', S database, S '' found.''],
         Connect database, Execute SQL_TABLE_EXISTS,
         Log ''validation'' INFO [S '' Table '', S table, S '' found''],
         Execute (SQLITE_COLUMNS_OF_TABLE table),
         Execute (SQL_SELECT_SOURCES field table),
         Log ''validation'' CRITICAL
           [S ''Source '', S id', S '' not found in '', S table,
            S '' in column '', S field, S ''. Pherhaps a typo?'']], Inr False)
     else
       ([PathExists database,
         Log ''validation'' INFO [S '' Database '', S database, S '' found.''],
         Connect database, Execute SQL_TABLE_EXISTS,
         Log ''validation'' INFO [S '' Table '', S table, S '' found''],
         Execute (SQLITE_COLUMNS_OF_TABLE table),
         Execute (SQL_SELECT_SOURCES field table),
         Log ''validation'' INFO [S '' Source '', S id', S '' found''],
         PathExists input_file]
        @ (if \<not> path_exists w input_file then
             [Log ''validation'' CRITICAL
                [S ''Input file: '', S input_file,
                 S '' not found. Check typos or correct the path'']]
           else [])
        @ [Log ''root'' INFO [S '' Input file '', S input_file, S '' found''],
           PathExists (path_dirname w output_file)]
        @ (if \<not> path_exists w (path_dirname w output_file) then
             [Log ''validation'' CRITICAL
                [S ''Output folder: '', S input_file,
                 S '' not found. Check typos or correct the path'']]
           else [])
        @ [Log ''root'' INFO [S '' Output file '', S output_file, S '' can be created''],
           Log ''validation'' INFO [S '' Validation finished, proceeding with conversion'']],
        Inr True))"
proof (cases "relation_found (Database db) table")
  case False
  with ex st show ?thesis
    by (simp add: validation_def and_then_def connect_def fetch_table_exists_def tables_iff)
next
  case rel: True
  from columns_iff[of db table field] obtain info where
    info: "fetch_columns_of_table (Database db) table = Inr info"
    and col: "(field \<in> snd ` set info) = field_found (Database db) table field"
    by (elim exE conjE)
  show ?thesis
  proof (cases "field_found (Database db) table field")
    case False
    with ex st rel info col show ?thesis
      by (simp add: validation_def and_then_def connect_def fetch_table_exists_def tables_iff
            Let_def)
  next
    case fld: True
    from sources_iff[OF fld, of id'] obtain srcs where
      srcs: "fetch_select_sources (Database db) field table = Inr srcs"
      and tag: "(id' \<in> set srcs) = tag_found (Database db) table field id'"
      by (elim exE conjE)
    from ex st rel fld info col srcs tag show ?thesis
      by (simp add: validation_def and_then_def connect_def fetch_table_exists_def tables_iff
            Let_def)
  qed
qed

lemma validation_no_resolution:
  "filter is_resolution
     (fst (validation w id' database table input_file output_file logfile field)) = []"
proof (cases "path_exists w database")
  case False
  then show ?thesis by (simp add: validation_missing)
next
  case True
  then show ?thesis
    by (cases "sqlite_file w database")
       (simp_all add: validation_cannot_open validation_not_a_database validation_database)
qed

section \<open>The loop of convert\<close>

lemma snd_convert_step:
  "snd (convert_step db t i f x (m, u)) =
     (case outcome db t i f x of
        Inl e \<Rightarrow> Inl e
      | Inr None \<Rightarrow> Inr (m, insert x u)
      | Inr (Some y) \<Rightarrow> Inr (AList.update x y m, u))"
  by (auto simp: convert_step_def outcome_def Let_def split: sum.splits list.splits)

lemma loop_Inl:
  "snd (convert_loop db t i f xs (m, u)) = Inl e \<Longrightarrow> \<exists>x\<in>set xs. outcome db t i f x = Inl e"
proof (induction xs arbitrary: m u)
  case Nil
  then show ?case by simp
next
  case (Cons x xs)
  then show ?case
    by (auto simp: snd_and_then snd_convert_step split: sum.splits option.splits)
qed

lemma loop_Inr:
  "snd (convert_loop db t i f xs (m, u)) = Inr (m', u') \<Longrightarrow>
     (\<forall>x\<in>set xs. \<exists>r. outcome db t i f x = Inr r)
     \<and> map_of m' = (\<lambda>x. if x \<in> set xs
                           then (case outcome db t i f x of
                                   Inr (Some y) \<Rightarrow> Some y
                                 | _ \<Rightarrow> map_of m x)
                           else map_of m x)
     \<and> u' = u \<union> {x \<in> set xs. outcome db t i f x = Inr None}"
proof (induction xs arbitrary: m u)
  case Nil
  then show ?case by simp
next
  case (Cons x xs)
  show ?case
  proof (cases "outcome db t i f x")
    case (Inl e)
    with Cons.prems show ?thesis by (simp add: snd_and_then snd_convert_step)
  next
    case (Inr r)
    show ?thesis
    proof (cases r)
      case None
      with Inr Cons.prems
      have "snd (convert_loop db t i f xs (m, insert x u)) = Inr (m', u')"
        by (simp add: snd_and_then snd_convert_step)
      from Cons.IH[OF this] Inr None show ?thesis
        by (auto simp: fun_eq_iff)
    next
      case (Some y)
      with Inr Cons.prems
      have "snd (convert_loop db t i f xs (AList.update x y m, u)) = Inr (m', u')"
        by (simp add: snd_and_then snd_convert_step)
      from Cons.IH[OF this] Inr Some show ?thesis
        by (auto simp: fun_eq_iff update_conv' split: sum.splits option.splits)
    qed
  qed
qed

lemma loop_total:
  "(\<forall>x\<in>set xs. \<exists>r. outcome db t i f x = Inr r)
     \<Longrightarrow> \<exists>st. snd (convert_loop db t i f xs (m, u)) = Inr st"
proof (induction xs arbitrary: m u)
  case Nil
  then show ?case by simp
next
  case (Cons x xs)
  then show ?case
    by (auto simp: snd_and_then snd_convert_step split: sum.splits option.splits)
qed

lemma loop_keys:
  "snd (convert_loop db t i f xs (m, u)) = Inr (m', u') \<Longrightarrow> distinct (map fst m)
     \<Longrightarrow> distinct (map fst m')"
proof (induction xs arbitrary: m u)
  case Nil
  then show ?case by simp
next
  case (Cons x xs)
  then show ?case
    by (auto simp: snd_and_then snd_convert_step distinct_update
             split: sum.splits option.splits)
qed

lemma find_filter: "find P xs = (case filter P xs of [] \<Rightarrow> None | x # _ \<Rightarrow> Some x)"
  by (induction xs) auto


lemma convert_returns:
  assumes "snd (convert w xs database table id' field) = Inr r"
  shows "snd (convert_loop (sqlite_file w database) table id' field xs ([], {})) = Inr r"
  using assms
  by (cases "sqlite_file w database") (simp_all add: convert_def connect_def snd_and_then)

lemma snd_convert:
  assumes "sqlite_file w database \<noteq> Cannot_Open"
  shows "snd (convert w xs database table id' field)
           = snd (convert_loop (sqlite_file w database) table id' field xs ([], {}))"
  using assms
  by (cases "sqlite_file w database") (simp_all add: convert_def connect_def snd_and_then)

lemma quoted_literal: "literal T v \<Longrightarrow> quoted T v = Inr (\<lambda>r. v)"
  by (simp add: literal_def quoted_def)

lemma fetch_get_inchikey_Inr:
  assumes "fetch_get_inchikey st t x = Inr ks"
  obtains db T val where "st = Database db" and "find_table db t = Some T"
    and "quoted T x = Inr val"
    and "map (\<lambda>r. r ''inchikey'') (filter (\<lambda>r. r ''id'' = val r) (table_rows T)) = ks"
proof (cases st)
  case Cannot_Open
  with assms show ?thesis by (simp add: fetch_get_inchikey_def)
next
  case Not_A_Database
  with assms show ?thesis by (simp add: fetch_get_inchikey_def)
next
  case (Database db)
  show ?thesis
  proof (cases "find_table db t")
    case None
    with assms Database show ?thesis by (simp add: fetch_get_inchikey_def)
  next
    case (Some T)
    show ?thesis
    proof (cases "quoted T x")
      case (Inl e)
      with assms Database Some show ?thesis
        by (simp add: fetch_get_inchikey_def split: if_splits)
    next
      case (Inr val)
      with assms Database Some
      have "map (\<lambda>r. r ''inchikey'') (filter (\<lambda>r. r ''id'' = val r) (table_rows T)) = ks"
        by (simp add: fetch_get_inchikey_def split: if_splits)
      with Database Some Inr show ?thesis by (rule that)
    qed
  qed
qed

lemma fetch_get_id_with_inchikey_Inr:
  assumes "fetch_get_id_with_inchikey st t k f i = Inr ys"
  obtains db T key tag where "st = Database db" and "find_table db t = Some T"
    and "quoted T k = Inr key" and "quoted T i = Inr tag"
    and "map (\<lambda>r. r ''id'')
           (filter (\<lambda>r. r ''inchikey'' = key r \<and> r f = tag r) (table_rows T)) = ys"
proof (cases st)
  case Cannot_Open
  with assms show ?thesis by (simp add: fetch_get_id_with_inchikey_def)
next
  case Not_A_Database
  with assms show ?thesis by (simp add: fetch_get_id_with_inchikey_def)
next
  case (Database db)
  show ?thesis
  proof (cases "find_table db t")
    case None
    with assms Database show ?thesis by (simp add: fetch_get_id_with_inchikey_def)
  next
    case (Some T)
    show ?thesis
    proof (cases "quoted T k")
      case (Inl e)
      with assms Database Some show ?thesis
        by (simp add: fetch_get_id_with_inchikey_def split: if_splits)
    next
      case key: (Inr key)
      show ?thesis
      proof (cases "quoted T i")
        case (Inl e)
        with assms Database Some key show ?thesis
          by (simp add: fetch_get_id_with_inchikey_def split: if_splits)
      next
        case (Inr tag)
        with assms Database Some key
        have "map (\<lambda>r. r ''id'')
                (filter (\<lambda>r. r ''inchikey'' = key r \<and> r f = tag r) (table_rows T)) = ys"
          by (simp add: fetch_get_id_with_inchikey_def split: if_splits)
        with Database Some key Inr show ?thesis by (rule that)
      qed
    qed
  qed
qed

lemma map_filter_Cons:
  assumes "map g (filter P xs) = v # vs"
  obtains r where "find P xs = Some r" and "v = g r"
proof (cases "filter P xs")
  case Nil
  with assms show ?thesis by simp
next
  case (Cons r rs)
  then have "find P xs = Some r" by (simp add: find_filter)
  moreover from assms Cons have "v = g r" by simp
  ultimately show ?thesis by (rule that)
qed

lemma outcome_Some_queries:
  assumes "outcome db t i f x = Inr (Some y)"
  shows "\<exists>k ks ys. fetch_get_inchikey db t x = Inr (k # ks)
           \<and> fetch_get_id_with_inchikey db t k f i = Inr (y # ys)"
proof (cases "fetch_get_inchikey db t x")
  case (Inl e)
  with assms show ?thesis by (simp add: outcome_def)
next
  case (Inr results)
  show ?thesis
  proof (cases results)
    case Nil
    with Inr assms show ?thesis by (simp add: outcome_def)
  next
    case (Cons k ks)
    show ?thesis
    proof (cases "fetch_get_id_with_inchikey db t k f i")
      case (Inl e)
      with Inr Cons assms show ?thesis by (simp add: outcome_def)
    next
      case hop2: (Inr targets)
      show ?thesis
      proof (cases targets)
        case Nil
        with Inr Cons hop2 assms show ?thesis by (simp add: outcome_def)
      next
        case (Cons y' ys)
        with Inr \<open>results = k # ks\<close> hop2 assms show ?thesis by (simp add: outcome_def)
      qed
    qed
  qed
qed

lemma outcome_Some:
  assumes "outcome st t i f x = Inr (Some y)"
  obtains db T val key tag r1 r2 where "st = Database db" and "find_table db t = Some T"
    and "quoted T x = Inr val"
    and "find (\<lambda>r. r ''id'' = val r) (table_rows T) = Some r1"
    and "quoted T (r1 ''inchikey'') = Inr key" and "quoted T i = Inr tag"
    and "find (\<lambda>r. r ''inchikey'' = key r \<and> r f = tag r) (table_rows T) = Some r2"
    and "y = r2 ''id''"
proof -
  from outcome_Some_queries[OF assms] obtain k ks ys where
    h1: "fetch_get_inchikey st t x = Inr (k # ks)"
    and h2: "fetch_get_id_with_inchikey st t k f i = Inr (y # ys)"
    by (elim exE conjE)
  from h1 obtain db T val where st: "st = Database db" and T: "find_table db t = Some T"
    and val: "quoted T x = Inr val"
    and k: "map (\<lambda>r. r ''inchikey'') (filter (\<lambda>r. r ''id'' = val r) (table_rows T)) = k # ks"
    by (rule fetch_get_inchikey_Inr)
  from h2 obtain db' T' key tag where st': "st = Database db'"
    and T': "find_table db' t = Some T'"
    and key': "quoted T' k = Inr key" and tag': "quoted T' i = Inr tag"
    and y': "map (\<lambda>r. r ''id'')
               (filter (\<lambda>r. r ''inchikey'' = key r \<and> r f = tag r) (table_rows T')) = y # ys"
    by (rule fetch_get_id_with_inchikey_Inr)
  from st st' have "db' = db" by simp
  with T T' have "T' = T" by simp
  with key' tag' y' have key: "quoted T k = Inr key" and tag: "quoted T i = Inr tag"
    and y: "map (\<lambda>r. r ''id'')
          (filter (\<lambda>r. r ''inchikey'' = key r \<and> r f = tag r) (table_rows T)) = y # ys"
    by (simp_all only:)
  from k obtain r1 where f1: "find (\<lambda>r. r ''id'' = val r) (table_rows T) = Some r1"
    and kr: "k = r1 ''inchikey''"
    by (rule map_filter_Cons)
  from y obtain r2 where
    f2: "find (\<lambda>r. r ''inchikey'' = key r \<and> r f = tag r) (table_rows T) = Some r2"
    and yr: "y = r2 ''id''"
    by (rule map_filter_Cons)
  from key kr have key1: "quoted T (r1 ''inchikey'') = Inr key" by (simp only:)
  from st T val f1 key1 tag f2 yr show ?thesis by (rule that)
qed

lemma convert_matched:
  assumes "snd (convert w xs database table id' field) = Inr (d, u)" and "(x, y) \<in> set d"
  shows "x \<in> set xs \<and> outcome (sqlite_file w database) table id' field x = Inr (Some y)
         \<and> recorded d x = {y}"
proof -
  let ?db = "sqlite_file w database"
  from assms(1) have loop: "snd (convert_loop ?db table id' field xs ([], {})) = Inr (d, u)"
    by (rule convert_returns)
  have "distinct (map fst d)"
    by (rule loop_keys[OF loop]) simp
  then have dist: "\<And>z. (x, z) \<in> set d \<Longrightarrow> map_of d x = Some z"
    by simp
  from dist[OF assms(2)] have m: "map_of d x = Some y" .
  from loop_Inr[OF loop] have
    "map_of d = (\<lambda>x. if x \<in> set xs
                        then (case outcome ?db table id' field x of
                                Inr (Some y) \<Rightarrow> Some y | _ \<Rightarrow> map_of [] x)
                        else map_of [] x)"
    by (rule conjunct1[OF conjunct2])
  then have "map_of d x = (if x \<in> set xs
                        then (case outcome ?db table id' field x of
                                Inr (Some y) \<Rightarrow> Some y | _ \<Rightarrow> None)
                        else None)"
    by (simp split: sum.splits option.splits)
  with m have sel: "(if x \<in> set xs
                        then (case outcome ?db table id' field x of
                                Inr (Some y) \<Rightarrow> Some y | _ \<Rightarrow> None)
                        else None) = Some y"
    by simp
  then have mem: "x \<in> set xs"
    by (simp split: if_splits)
  with sel have out: "outcome ?db table id' field x = Inr (Some y)"
    by (simp split: sum.splits option.splits)
  have "recorded d x = {y}"
  proof (rule set_eqI)
    fix z
    show "z \<in> recorded d x \<longleftrightarrow> z \<in> {y}"
    proof
      assume "z \<in> recorded d x"
      then have "(x, z) \<in> set d" by (auto simp: recorded_def)
      from dist[OF this] m show "z \<in> {y}" by simp
    next
      assume "z \<in> {y}"
      with assms(2) show "z \<in> recorded d x" by (force simp: recorded_def)
    qed
  qed
  with mem out show ?thesis by simp
qed

section \<open>Evaluation on the small relations\<close>

lemmas run_simps =
  convert_def convert_step_def and_then_def connect_def fetch_get_inchikey_def
  fetch_get_id_with_inchikey_def find_table_def quoted_def column_named_def
  ascii_lower_def ascii_lower_char_def compounds_def scenario_def mk_row_def
  host_def Let_def

lemmas main_simps =
  main_def cli_def parse_loglevel_def validation_def parse_input_file_def
  save_compounds_def fetch_table_exists_def fetch_columns_of_table_def
  fetch_select_sources_def

section \<open>Lookup misses\<close>

text \<open>
  C1. An identifier whose first or second lookup returns no row is to be classified as
  unmatched, and the run is to go on without an error. The code does so for the first
  lookup only. On the relation of the scenario of the specification, with target tag
  \<open>HMDB\<close>, the key \<open>XYZ999\<close> of \<open>C999\<close> has no row under the tag: the second
  query is empty, \<open>fetchall()[0][0]\<close> raises \<open>IndexError\<close>, and \<open>convert\<close> ends with
  that exception instead of a result. \<open>UNKNOWN1\<close>, absent at the first lookup, is
  recorded as unmatched.
\<close>

theorem convert_hop2_miss_raises:
  "fetch_get_inchikey (Database [scenario]) ''mbroleplus'' ''C999'' = Inr [''XYZ999'']
   \<and> fetch_get_id_with_inchikey (Database [scenario]) ''mbroleplus'' ''XYZ999''
       ''database'' ''HMDB''
       = Inr []
   \<and> snd (convert (host scenario []) [''C001'', ''C999'', ''UNKNOWN1'']
             ''db.sqlite'' ''mbroleplus'' ''HMDB'' ''database'') = Inl IndexError
   \<and> snd (convert (host scenario []) [''UNKNOWN1'']
             ''db.sqlite'' ''mbroleplus'' ''HMDB'' ''database'') = Inr ([], {''UNKNOWN1''})"
  by (simp add: run_simps)

section \<open>The match that is recorded\<close>

text \<open>
  C2, as stated: the match recorded for an identifier is the set of all distinct
  identifiers of the rows with its canonical key and the target tag. It fails: the key
  \<open>ABC123\<close> of \<open>C001\<close> has the two rows \<open>HMDB0001\<close> and \<open>HMDB0002\<close> under
  \<open>HMDB\<close>, and \<open>convert\<close> records \<open>HMDB0001\<close> alone.
\<close>

theorem convert_match_counterexample:
  "snd (convert (host compounds []) [''C001'']
          ''db.sqlite'' ''mbroleplus'' ''HMDB'' ''database'')
     = Inr ([(''C001'', ''HMDB0001'')], {})
   \<and> fetch_get_inchikey (Database [compounds]) ''mbroleplus'' ''C001'' = Inr [''ABC123'', ''QQQ777'']
   \<and> spec_match compounds ''database'' ''HMDB'' ''ABC123'' = {''HMDB0001'', ''HMDB0002''}
   \<and> recorded [(''C001'', ''HMDB0001'')] ''C001'' = {''HMDB0001''}
   \<and> recorded [(''C001'', ''HMDB0001'')] ''C001''
       \<noteq> spec_match compounds ''database'' ''HMDB'' ''ABC123''"
  by (simp add: run_simps spec_match_def recorded_def)

text \<open>
  C2, amended: the match recorded for a matched identifier \<open>x\<close> is a single
  identifier, that of the first row, in the row order of the relation, whose canonical key
  is the key of the first row of \<open>x\<close> and whose tag is the target tag. This is for
  an identifier, a key and a target tag that the engine reads as string literals: they
  hold no double quote and name no column.
\<close>

theorem convert_records_first_target:
  assumes "snd (convert w xs database table id' field) = Inr (d, u)" and "(x, y) \<in> set d"
    and "sqlite_file w database = Database db" and "find_table db table = Some T"
    and "literal T x" and "literal T id'"
    and "first_key_literal T x"
  shows "\<exists>r1 r2. find (\<lambda>r. r ''id'' = x) (table_rows T) = Some r1
          \<and> find (\<lambda>r. r ''inchikey'' = r1 ''inchikey'' \<and> r field = id') (table_rows T) = Some r2
          \<and> recorded d x = {r2 ''id''}"
proof -
  from convert_matched[OF assms(1,2)]
  have out: "outcome (sqlite_file w database) table id' field x = Inr (Some y)"
    and rec: "recorded d x = {y}" by simp_all
  from out obtain db' T' val key tag r1 r2 where
    st: "sqlite_file w database = Database db'" and T': "find_table db' table = Some T'"
    and val: "quoted T' x = Inr val"
    and f1: "find (\<lambda>r. r ''id'' = val r) (table_rows T') = Some r1"
    and key: "quoted T' (r1 ''inchikey'') = Inr key" and tag: "quoted T' id' = Inr tag"
    and f2: "find (\<lambda>r. r ''inchikey'' = key r \<and> r field = tag r) (table_rows T') = Some r2"
    and y: "y = r2 ''id''"
    by (rule outcome_Some)
  from st assms(3) have "db' = db" by simp
  with T' assms(4) have TT: "T' = T" by simp
  from val TT quoted_literal[OF assms(5)] have "val = (\<lambda>r. x)" by simp
  with f1 TT have g1: "find (\<lambda>r. r ''id'' = x) (table_rows T) = Some r1" by simp
  with assms(7) have "literal T (r1 ''inchikey'')" by (simp add: first_key_literal_def)
  from key TT quoted_literal[OF this] have "key = (\<lambda>r. r1 ''inchikey'')" by simp
  moreover from tag TT quoted_literal[OF assms(6)] have "tag = (\<lambda>r. id')" by simp
  ultimately have
    g2: "find (\<lambda>r. r ''inchikey'' = r1 ''inchikey'' \<and> r field = id') (table_rows T) = Some r2"
    using f2 TT by simp
  from g1 g2 rec y show ?thesis
    by (intro exI[of _ r1] exI[of _ r2]) simp
qed

theorem convert_records_first_target_witness:
  "snd (convert (host compounds []) [''C001'', ''UNKNOWN1'']
          ''db.sqlite'' ''mbroleplus'' ''HMDB'' ''database'')
     = Inr ([(''C001'', ''HMDB0001'')], {''UNKNOWN1''})
   \<and> (''C001'', ''HMDB0001'') \<in> set [(''C001'', ''HMDB0001'')]
   \<and> sqlite_file (host compounds []) ''db.sqlite'' = Database [compounds]
   \<and> find_table [compounds] ''mbroleplus'' = Some compounds
   \<and> literal compounds ''C001'' \<and> literal compounds ''HMDB''
   \<and> first_key_literal compounds ''C001''
   \<and> (\<exists>r1 r2. find (\<lambda>r. r ''id'' = ''C001'') (table_rows compounds) = Some r1
          \<and> find (\<lambda>r. r ''inchikey'' = r1 ''inchikey'' \<and> r ''database'' = ''HMDB'')
                (table_rows compounds) = Some r2
          \<and> recorded [(''C001'', ''HMDB0001'')] ''C001'' = {r2 ''id''})"
proof -
  have h: "snd (convert (host compounds []) [''C001'', ''UNKNOWN1'']
                  ''db.sqlite'' ''mbroleplus'' ''HMDB'' ''database'')
             = Inr ([(''C001'', ''HMDB0001'')], {''UNKNOWN1''})"
    by (simp add: run_simps)
  have m: "(''C001'', ''HMDB0001'') \<in> set [(''C001'', ''HMDB0001'')]"
    by simp
  have s: "sqlite_file (host compounds []) ''db.sqlite'' = Database [compounds]"
    by (simp add: host_def)
  have t: "find_table [compounds] ''mbroleplus'' = Some compounds"
    by (simp add: find_table_def compounds_def)
  have l1: "literal compounds ''C001''"
    by (simp add: literal_def column_named_def ascii_lower_def ascii_lower_char_def
          compounds_def)
  have l2: "literal compounds ''HMDB''"
    by (simp add: literal_def column_named_def ascii_lower_def ascii_lower_char_def
          compounds_def)
  have l3: "first_key_literal compounds ''C001''"
    by (simp add: first_key_literal_def literal_def column_named_def ascii_lower_def
          ascii_lower_char_def compounds_def mk_row_def)
  from convert_records_first_target[OF h m s t l1 l2 l3] h m s t l1 l2 l3
  show ?thesis by (simp only: simp_thms)
qed

section \<open>Soundness\<close>




section \<open>The partition\<close>

text \<open>
  Whenever \<open>convert\<close> returns, the keys of its dictionary and its set of unavailable
  identifiers are disjoint and together are the input.
\<close>

lemma convert_partition_when_returned:
  assumes "snd (convert w xs database table id' field) = Inr (d, u)"
  shows "set (map fst d) \<union> u = set xs \<and> set (map fst d) \<inter> u = {}"
proof -
  let ?db = "sqlite_file w database"
  from assms have loop: "snd (convert_loop ?db table id' field xs ([], {})) = Inr (d, u)"
    by (rule convert_returns)
  note p = loop_Inr[OF loop]
  from p have all: "\<forall>x\<in>set xs. \<exists>r. outcome ?db table id' field x = Inr r"
    by (rule conjunct1)
  from p have
    "map_of d = (\<lambda>x. if x \<in> set xs
                        then (case outcome ?db table id' field x of
                                Inr (Some y) \<Rightarrow> Some y | _ \<Rightarrow> map_of [] x)
                        else map_of [] x)"
    by (rule conjunct1[OF conjunct2])
  then have mo: "\<And>x. map_of d x = (if x \<in> set xs
                        then (case outcome ?db table id' field x of
                                Inr (Some y) \<Rightarrow> Some y | _ \<Rightarrow> None)
                        else None)"
    by (simp split: sum.splits option.splits)
  from p have u: "u = {x \<in> set xs. outcome ?db table id' field x = Inr None}"
    by simp
  have k: "(x \<in> set (map fst d))
             = (x \<in> set xs \<and> (\<exists>y. outcome ?db table id' field x = Inr (Some y)))" for x
  proof -
    have "(x \<in> set (map fst d)) = (map_of d x \<noteq> None)"
      by (simp add: map_of_eq_None_iff)
    also have "\<dots> = (x \<in> set xs \<and> (\<exists>y. outcome ?db table id' field x = Inr (Some y)))"
    proof (cases "x \<in> set xs")
      case False
      then show ?thesis by (simp add: mo)
    next
      case True
      show ?thesis
      proof (cases "outcome ?db table id' field x")
        case (Inl e)
        with True show ?thesis by (simp add: mo)
      next
        case (Inr r)
        with True show ?thesis by (cases r) (simp_all add: mo)
      qed
    qed
    finally show ?thesis .
  qed
  have "set (map fst d) \<union> u = set xs"
  proof (rule set_eqI)
    fix x
    show "(x \<in> set (map fst d) \<union> u) = (x \<in> set xs)"
    proof (cases "x \<in> set xs")
      case False
      then show ?thesis by (simp add: k u del: set_map)
    next
      case True
      with all obtain r where "outcome ?db table id' field x = Inr r" by blast
      with True show ?thesis by (cases r) (simp_all add: k u del: set_map)
    qed
  qed
  moreover have "set (map fst d) \<inter> u = {}"
  proof (rule set_eqI)
    fix x
    show "(x \<in> set (map fst d) \<inter> u) = (x \<in> {})"
      by (auto simp add: k u simp del: set_map)
  qed
  ultimately show ?thesis by (rule conjI)
qed

text \<open>
  C3. The result of \<open>convert\<close> is to be a partition of the input into matched and
  unmatched identifiers, for every relation and every input. For the input
  \<open>{C001, C999}\<close> there is no result at all: \<open>C001\<close> alone is matched, but the key of
  \<open>C999\<close> has no row under the target tag, the second query is empty, and \<open>convert\<close>
  raises \<open>IndexError\<close> in whichever order the set is iterated. \<open>C999\<close> is in neither
  part.
\<close>

theorem convert_no_partition_on_hop2_miss:
  "snd (convert (host compounds []) [''C001'']
          ''db.sqlite'' ''mbroleplus'' ''HMDB'' ''database'')
     = Inr ([(''C001'', ''HMDB0001'')], {})
   \<and> snd (convert (host compounds []) [''C001'', ''C999'']
          ''db.sqlite'' ''mbroleplus'' ''HMDB'' ''database'') = Inl IndexError
   \<and> snd (convert (host compounds []) [''C999'', ''C001'']
          ''db.sqlite'' ''mbroleplus'' ''HMDB'' ''database'') = Inl IndexError"
  by (simp add: run_simps)

section \<open>The order of the validation\<close>



section \<open>Empty input\<close>

text \<open>
  C9. Resolving an empty set of identifiers is to give an empty dictionary and an empty
  set, and the run is to raise no failure. \<open>convert\<close> does return the two empty parts;
  \<open>main\<close> then divides by the number of input compounds to format its summary and
  raises \<open>ZeroDivisionError\<close>: with an empty input file and a valid database the
  process ends with exit status 1.
\<close>

theorem main_empty_input_raises:
  "snd (convert (host scenario []) [] ''db.sqlite'' ''mbroleplus'' ''HMDB'' ''database'')
     = Inr ([], {})
   \<and> snd (validation (host scenario []) ''HMDB'' ''db.sqlite'' ''mbroleplus'' ''in.txt''
            ''./out.txt'' ''/dev/stdout'' ''database'') = Inr True
   \<and> snd (main (host scenario []) (cli ''HMDB'')) = Inl ZeroDivisionError
   \<and> exit_code (snd (main (host scenario []) (cli ''HMDB''))) = 1"
  by (simp add: run_simps main_simps)

section \<open>An identifier listed under several rows\<close>

lemma fst_convert_step_found:
  assumes "fetch_get_inchikey st table x = Inr (k # ks)"
  shows "executed (fst (convert_step st table id' field x (m, u)))
           = [SQL_GET_INCHIKEY table x, SQL_GET_ID_WITH_INCHIKEY table k field id']"
  using assms
  by (simp add: convert_step_def Let_def split: sum.splits list.splits)

lemma snd_convert_step_found:
  assumes "fetch_get_inchikey st table x = Inr (k # ks)"
  shows "snd (convert_step st table id' field x (m, u))
           = (case fetch_get_id_with_inchikey st table k field id' of
                Inl e \<Rightarrow> Inl e
              | Inr [] \<Rightarrow> Inl IndexError
              | Inr (y # _) \<Rightarrow> Inr (AList.update x y m, u))"
  using assms
  by (simp add: convert_step_def Let_def split: sum.splits list.splits)

lemma first_row_key:
  assumes "find_table db table = Some T"
    and "''id'' \<in> set (table_columns T)" and "''inchikey'' \<in> set (table_columns T)"
    and "quoted T x = Inr val"
    and "find (\<lambda>r. r ''id'' = val r) (table_rows T) = Some r"
  shows "\<exists>ks. fetch_get_inchikey (Database db) table x = Inr (r ''inchikey'' # ks)"
proof -
  from assms(5) obtain rs where "filter (\<lambda>r. r ''id'' = val r) (table_rows T) = r # rs"
    by (cases "filter (\<lambda>r. r ''id'' = val r) (table_rows T)") (simp_all add: find_filter)
  with assms(1-4) show ?thesis
    by (simp add: fetch_get_inchikey_def)
qed

text \<open>
  C8. The first query selects the rows whose identifier equals the value the engine reads
  from the quoted token; for an identifier read as a string literal these are the rows
  with that identifier. When the relation lists several such rows, the key of the first
  of them, in the row order of the relation, is the one \<open>convert\<close> uses: the second
  statement it executes for the identifier is the query for that key and the target tag,
  and the outcome for the identifier is decided by the result of that query. The rows
  after the first, whether or not they agree on the key, play no part.
\<close>

theorem ambiguous_source_first_row:
  assumes "find_table db table = Some T"
    and "''id'' \<in> set (table_columns T)" and "''inchikey'' \<in> set (table_columns T)"
    and "quoted T x = Inr val"
    and "find (\<lambda>r. r ''id'' = val r) (table_rows T) = Some r"
  shows "executed (fst (convert_step (Database db) table id' field x (m, u)))
           = [SQL_GET_INCHIKEY table x,
              SQL_GET_ID_WITH_INCHIKEY table (r ''inchikey'') field id']
       \<and> snd (convert_step (Database db) table id' field x (m, u))
           = (case fetch_get_id_with_inchikey (Database db) table (r ''inchikey'') field id' of
                Inl e \<Rightarrow> Inl e
              | Inr [] \<Rightarrow> Inl IndexError
              | Inr (y # _) \<Rightarrow> Inr (AList.update x y m, u))"
proof -
  from first_row_key[OF assms] obtain ks where
    "fetch_get_inchikey (Database db) table x = Inr (r ''inchikey'' # ks)" ..
  then show ?thesis
    by (simp only: fst_convert_step_found snd_convert_step_found)
qed

theorem ambiguous_source_first_row_witness:
  "find_table [compounds] ''mbroleplus'' = Some compounds
   \<and> ''id'' \<in> set (table_columns compounds) \<and> ''inchikey'' \<in> set (table_columns compounds)
   \<and> quoted compounds ''C001'' = Inr (\<lambda>r. ''C001'')
   \<and> find (\<lambda>r. r ''id'' = ''C001'') (table_rows compounds)
       = Some (mk_row ''1'' ''C001'' ''ABC123'' ''KEGG'')
   \<and> fetch_get_inchikey (Database [compounds]) ''mbroleplus'' ''C001''
       = Inr [''ABC123'', ''QQQ777'']
   \<and> executed (fst (convert_step (Database [compounds]) ''mbroleplus'' ''HMDB'' ''database''
                       ''C001'' ([], {})))
       = [SQL_GET_INCHIKEY ''mbroleplus'' ''C001'',
          SQL_GET_ID_WITH_INCHIKEY ''mbroleplus'' ''ABC123'' ''database'' ''HMDB'']
   \<and> snd (convert_step (Database [compounds]) ''mbroleplus'' ''HMDB'' ''database'' ''C001''
            ([], {}))
       = Inr ([(''C001'', ''HMDB0001'')], {})"
proof -
  have a: "find_table [compounds] ''mbroleplus'' = Some compounds"
    by (simp add: find_table_def compounds_def)
  have b: "''id'' \<in> set (table_columns compounds)" by (simp add: compounds_def)
  have c: "''inchikey'' \<in> set (table_columns compounds)" by (simp add: compounds_def)
  have q0: "quoted compounds ''C001'' = Inr (\<lambda>r. ''C001'')"
    by (simp add: quoted_def column_named_def ascii_lower_def ascii_lower_char_def
          compounds_def)
  have d: "find (\<lambda>r. r ''id'' = ''C001'') (table_rows compounds)
             = Some (mk_row ''1'' ''C001'' ''ABC123'' ''KEGG'')"
    by (simp add: compounds_def mk_row_def)
  have e: "fetch_get_inchikey (Database [compounds]) ''mbroleplus'' ''C001''
             = Inr [''ABC123'', ''QQQ777'']"
    by (simp add: run_simps)
  have k: "mk_row ''1'' ''C001'' ''ABC123'' ''KEGG'' ''inchikey'' = ''ABC123''"
    by (simp add: mk_row_def)
  have q: "fetch_get_id_with_inchikey (Database [compounds]) ''mbroleplus'' ''ABC123''
             ''database'' ''HMDB'' = Inr [''HMDB0001'', ''HMDB0002'']"
    by (simp add: run_simps)
  from ambiguous_source_first_row[OF a b c q0 d, of "''HMDB''" "''database''" "[]" "{}"]
       a b c q0 d e
  show ?thesis
    by (simp add: k q)
qed

section \<open>An empty target identifier\<close>

text \<open>
  C10. If the second query returns a row and the identifier in its first row is the empty
  string, the input identifier is recorded in the dictionary with the empty string as its
  value: the test on the length of the value changes nothing.
\<close>

theorem empty_target_still_matched:
  assumes "fetch_get_inchikey (sqlite_file w database) table x = Inr (k # ks)"
    and "fetch_get_id_with_inchikey (sqlite_file w database) table k field id' = Inr ([] # ys)"
  shows "snd (convert_step (sqlite_file w database) table id' field x (m, u))
           = Inr (AList.update x [] m, u)
       \<and> snd (convert w [x] database table id' field) = Inr ([(x, [])], {})"
proof -
  from assms(1) have "sqlite_file w database \<noteq> Cannot_Open"
    by (auto simp: fetch_get_inchikey_def)
  with assms show ?thesis
    by (simp add: snd_convert snd_and_then snd_convert_step_found)
qed

theorem empty_target_still_matched_witness:
  "fetch_get_inchikey (sqlite_file (host compounds []) ''db.sqlite'') ''mbroleplus'' ''C500''
     = Inr [''EEE555'']
   \<and> fetch_get_id_with_inchikey (sqlite_file (host compounds []) ''db.sqlite'') ''mbroleplus''
       ''EEE555'' ''database'' ''HMDB'' = Inr [[]]
   \<and> snd (convert_step (sqlite_file (host compounds []) ''db.sqlite'') ''mbroleplus'' ''HMDB''
            ''database'' ''C500'' ([], {})) = Inr ([(''C500'', [])], {})
   \<and> snd (convert (host compounds []) [''C500''] ''db.sqlite'' ''mbroleplus'' ''HMDB''
            ''database'') = Inr ([(''C500'', [])], {})"
proof -
  have a: "fetch_get_inchikey (sqlite_file (host compounds []) ''db.sqlite'') ''mbroleplus''
             ''C500'' = Inr [''EEE555'']"
    by (simp add: run_simps)
  have b: "fetch_get_id_with_inchikey (sqlite_file (host compounds []) ''db.sqlite'')
             ''mbroleplus'' ''EEE555'' ''database'' ''HMDB'' = Inr [[]]"
    by (simp add: run_simps)
  from empty_target_still_matched[OF a b, of "[]" "{}"] a b show ?thesis
    by simp
qed

section \<open>Independence of the order of the input\<close>

text \<open>
  Two orders of the same identifiers give the same partition, and when one of them ends
  with an exception so does the other.
\<close>

lemma convert_loop_set_eq:
  assumes "set xs = set ys"
  shows "partition_of (snd (convert_loop st t i f xs ([], {})))
           = partition_of (snd (convert_loop st t i f ys ([], {})))"
proof (cases "snd (convert_loop st t i f xs ([], {}))")
  case (Inl e)
  from loop_Inl[OF Inl] obtain x where x: "x \<in> set xs" "outcome st t i f x = Inl e"
    by (elim bexE)
  have "\<exists>e'. snd (convert_loop st t i f ys ([], {})) = Inl e'"
  proof (cases "snd (convert_loop st t i f ys ([], {}))")
    case other: (Inl e')
    then show ?thesis by simp
  next
    case (Inr r)
    obtain m' u' where "r = (m', u')" by (cases r)
    with Inr have "snd (convert_loop st t i f ys ([], {})) = Inr (m', u')" by simp
    from loop_Inr[OF this] have "\<forall>x\<in>set ys. \<exists>r. outcome st t i f x = Inr r"
      by (rule conjunct1)
    with x assms show ?thesis by auto
  qed
  with Inl show ?thesis by (auto simp: partition_of_def)
next
  case (Inr r)
  obtain m u where r: "r = (m, u)" by (cases r)
  with Inr have rx: "snd (convert_loop st t i f xs ([], {})) = Inr (m, u)" by simp
  note px = loop_Inr[OF rx]
  from px have all: "\<forall>x\<in>set ys. \<exists>r. outcome st t i f x = Inr r"
    using assms by simp
  from loop_total[OF all] obtain r' where
    "snd (convert_loop st t i f ys ([], {})) = Inr r'" ..
  moreover obtain m' u' where "r' = (m', u')" by (cases r')
  ultimately have ry: "snd (convert_loop st t i f ys ([], {})) = Inr (m', u')" by simp
  note py = loop_Inr[OF ry]
  from px py assms have "map_of m' = map_of m" and "u' = u" by simp_all
  with rx ry show ?thesis by (simp add: partition_of_def)
qed

lemma convert_set_eq:
  assumes "sqlite_file w' = sqlite_file w" and "set xs = set ys"
  shows "partition_of (snd (convert w xs database table id' field))
           = partition_of (snd (convert w' ys database table id' field))"
proof (cases "sqlite_file w database = Cannot_Open")
  case True
  with assms(1) show ?thesis
    by (simp add: convert_def connect_def snd_and_then partition_of_def)
next
  case False
  with assms(1) have "sqlite_file w' database \<noteq> Cannot_Open" by simp
  with False convert_loop_set_eq[OF assms(2)] assms(1) show ?thesis
    by (simp add: snd_convert)
qed

lemma parse_permuted:
  assumes "mset lines' = mset lines"
  shows "(\<exists>e. snd (parse_input_file (with_lines w file lines') file gz) = Inl e
             \<and> snd (parse_input_file (with_lines w file lines) file gz) = Inl e)
         \<or> (\<exists>xs ys. snd (parse_input_file (with_lines w file lines') file gz) = Inr xs
               \<and> snd (parse_input_file (with_lines w file lines) file gz) = Inr ys
               \<and> set xs = set ys)"
proof -
  from assms have s: "set lines' = set lines" by (rule mset_eq_setD)
  from assms have e: "(lines' = []) = (lines = [])" by (metis mset_zero_iff)
  show ?thesis
  proof (cases "gz \<and> lines \<noteq> []")
    case True
    with e show ?thesis by (simp add: parse_input_file_def with_lines_def)
  next
    case False
    with e s show ?thesis by (simp add: parse_input_file_def with_lines_def)
  qed
qed

lemma permuted_lines_same_partition:
  assumes "mset lines' = mset lines"
  shows "partition_of
           (snd (resolve_file (with_lines w file lines') file gz database table id' field))
         = partition_of
           (snd (resolve_file (with_lines w file lines) file gz database table id' field))"
  using parse_permuted[OF assms, of w "file" gz]
proof
  assume "\<exists>e. snd (parse_input_file (with_lines w file lines') file gz) = Inl e
             \<and> snd (parse_input_file (with_lines w file lines) file gz) = Inl e"
  then show ?thesis by (auto simp: resolve_file_def snd_and_then)
next
  assume "\<exists>xs ys. snd (parse_input_file (with_lines w file lines') file gz) = Inr xs
               \<and> snd (parse_input_file (with_lines w file lines) file gz) = Inr ys
               \<and> set xs = set ys"
  then obtain xs ys where
    a: "snd (parse_input_file (with_lines w file lines') file gz) = Inr xs"
    and b: "snd (parse_input_file (with_lines w file lines) file gz) = Inr ys"
    and c: "set xs = set ys"
    by (elim exE conjE)
  have "sqlite_file (with_lines w file lines) = sqlite_file (with_lines w file lines')"
    by (simp add: with_lines_def)
  from convert_set_eq[OF this c] a b show ?thesis
    by (simp add: resolve_file_def snd_and_then)
qed

text \<open>
  C7. Permuting the lines of the input is to leave the partition as it is, and the outcome
  of an identifier is to depend on the relation and that identifier alone. The second
  part fails by the unguarded index of C1. With the relation of the scenario and target
  tag \<open>HMDB\<close>, an input file with the line \<open>C001\<close> gives \<open>C001\<close> the match
  \<open>HMDB0001\<close> and one with the line \<open>UNKNOWN1\<close> records it as unmatched; with the
  line \<open>C999\<close> added, in either order, the run ends with \<open>IndexError\<close> and neither
  identifier gets an outcome.
\<close>

theorem outcome_depends_on_other_identifiers:
  "snd (resolve_file (host scenario [''C001'' @ [CHR 0x0A]]) ''in.txt'' False
          ''db.sqlite'' ''mbroleplus'' ''HMDB'' ''database'')
     = Inr ([(''C001'', ''HMDB0001'')], {})
   \<and> snd (resolve_file (host scenario [''C001'' @ [CHR 0x0A], ''C999'' @ [CHR 0x0A]])
            ''in.txt'' False ''db.sqlite'' ''mbroleplus'' ''HMDB'' ''database'')
       = Inl IndexError
   \<and> snd (resolve_file (host scenario [''C999'' @ [CHR 0x0A], ''C001'' @ [CHR 0x0A]])
            ''in.txt'' False ''db.sqlite'' ''mbroleplus'' ''HMDB'' ''database'')
       = Inl IndexError
   \<and> snd (resolve_file (host scenario [''UNKNOWN1'' @ [CHR 0x0A]]) ''in.txt'' False
            ''db.sqlite'' ''mbroleplus'' ''HMDB'' ''database'')
       = Inr ([], {''UNKNOWN1''})
   \<and> snd (resolve_file (host scenario [''UNKNOWN1'' @ [CHR 0x0A], ''C999'' @ [CHR 0x0A]])
            ''in.txt'' False ''db.sqlite'' ''mbroleplus'' ''HMDB'' ''database'')
       = Inl IndexError"
  by (simp add: resolve_file_def parse_input_file_def strip_def run_simps)

section \<open>The exit status\<close>

lemma parse_loglevel_cases:
  "(\<exists>lv. parse_loglevel l = ([], Inr lv))
   \<or> parse_loglevel l
       = ([Print [S ''Error: invalid loglevel '', S l,
                  S ''. Valid values are: debug, info, warn, error, critical'']],
          Inl (SystemExit (- 1)))"
  by (simp add: parse_loglevel_def)

lemma main_rejected:
  assumes "snd (validation w (arg_id a) (arg_database a) (arg_table a) (arg_input a)
                  (arg_output a) (arg_logfile a) (arg_field a)) = Inr False"
  shows "exit_code (snd (main w a)) \<noteq> 0 \<and> filter is_resolution (fst (main w a)) = []"
proof -
  obtain evs where v: "validation w (arg_id a) (arg_database a) (arg_table a) (arg_input a)
                  (arg_output a) (arg_logfile a) (arg_field a) = (evs, Inr False)"
    using assms
    by (cases "validation w (arg_id a) (arg_database a) (arg_table a) (arg_input a)
                  (arg_output a) (arg_logfile a) (arg_field a)") simp
  have nores: "filter is_resolution evs = []"
    using validation_no_resolution[of w "arg_id a" "arg_database a" "arg_table a" "arg_input a"
            "arg_output a" "arg_logfile a" "arg_field a"] v
    by simp
  from parse_loglevel_cases[of "arg_loglevel a"] show ?thesis
  proof
    assume "\<exists>lv. parse_loglevel (arg_loglevel a) = ([], Inr lv)"
    then obtain lv where "parse_loglevel (arg_loglevel a) = ([], Inr lv)" ..
    with v nores show ?thesis
      by (simp add: main_def and_then_def)
  next
    assume "parse_loglevel (arg_loglevel a)
       = ([Print [S ''Error: invalid loglevel '', S (arg_loglevel a),
                  S ''. Valid values are: debug, info, warn, error, critical'']],
          Inl (SystemExit (- 1)))"
    then show ?thesis
      by (simp add: main_def and_then_def)
  qed
qed

lemma main_completes:
  assumes "snd (parse_loglevel (arg_loglevel a)) = Inr lv"
    and "snd (validation w (arg_id a) (arg_database a) (arg_table a) (arg_input a)
                  (arg_output a) (arg_logfile a) (arg_field a)) = Inr True"
    and "snd (parse_input_file w (arg_input a) (arg_gzipped_input a)) = Inr input_compounds"
    and "input_compounds \<noteq> []"
    and "snd (convert w input_compounds (arg_database a) (arg_table a) (arg_id a) (arg_field a))
           = Inr (converted, unavailable)"
    and "writable w (arg_output a)" and "writable w (arg_discarded_file a)"
  shows "snd (main w a) = Inr ()"
  using assms
  by (simp add: main_def snd_and_then save_compounds_def)

text \<open>
  C6. When \<open>validation\<close> returns \<open>False\<close> the process ends with a non-zero exit
  status and neither query of the resolution is executed. When \<open>main\<close> returns, the
  exit status is 0; it does return when the log level, the validation, the parsing of a
  non-empty input and the conversion succeed and both output files can be written,
  whatever the set of unmatched identifiers is.
\<close>

theorem main_exit_status:
  "(snd (validation w (arg_id a) (arg_database a) (arg_table a) (arg_input a)
           (arg_output a) (arg_logfile a) (arg_field a)) = Inr False
      \<longrightarrow> exit_code (snd (main w a)) \<noteq> 0 \<and> filter is_resolution (fst (main w a)) = [])
   \<and> (snd (main w a) = Inr () \<longrightarrow> exit_code (snd (main w a)) = 0)
   \<and> (snd (parse_loglevel (arg_loglevel a)) = Inr lv
       \<and> snd (validation w (arg_id a) (arg_database a) (arg_table a) (arg_input a)
                (arg_output a) (arg_logfile a) (arg_field a)) = Inr True
       \<and> snd (parse_input_file w (arg_input a) (arg_gzipped_input a)) = Inr input_compounds
       \<and> input_compounds \<noteq> []
       \<and> snd (convert w input_compounds (arg_database a) (arg_table a) (arg_id a)
                (arg_field a)) = Inr (converted, unavailable)
       \<and> writable w (arg_output a) \<and> writable w (arg_discarded_file a)
      \<longrightarrow> snd (main w a) = Inr () \<and> exit_code (snd (main w a)) = 0)"
proof (intro conjI impI)
  assume "snd (validation w (arg_id a) (arg_database a) (arg_table a) (arg_input a)
           (arg_output a) (arg_logfile a) (arg_field a)) = Inr False"
  from main_rejected[OF this] show "exit_code (snd (main w a)) \<noteq> 0"
    and "filter is_resolution (fst (main w a)) = []" by simp_all
next
  assume "snd (main w a) = Inr ()"
  then show "exit_code (snd (main w a)) = 0" by simp
next
  assume h: "snd (parse_loglevel (arg_loglevel a)) = Inr lv
       \<and> snd (validation w (arg_id a) (arg_database a) (arg_table a) (arg_input a)
                (arg_output a) (arg_logfile a) (arg_field a)) = Inr True
       \<and> snd (parse_input_file w (arg_input a) (arg_gzipped_input a)) = Inr input_compounds
       \<and> input_compounds \<noteq> []
       \<and> snd (convert w input_compounds (arg_database a) (arg_table a) (arg_id a)
                (arg_field a)) = Inr (converted, unavailable)
       \<and> writable w (arg_output a) \<and> writable w (arg_discarded_file a)"
  with main_completes[of a lv w input_compounds converted unavailable]
  have r: "snd (main w a) = Inr ()"
    by simp
  then show "snd (main w a) = Inr ()" .
  from r show "exit_code (snd (main w a)) = 0" by simp
qed

theorem main_exit_status_witness:
  "snd (validation (host scenario []) ''XX'' ''db.sqlite'' ''mbroleplus'' ''in.txt''
          ''./out.txt'' ''/dev/stdout'' ''database'') = Inr False
   \<and> exit_code (snd (main (host scenario []) (cli ''XX''))) = 1
   \<and> filter is_resolution (fst (main (host scenario []) (cli ''XX''))) = []
   \<and> snd (validation (host scenario [''C001'' @ [CHR 0x0A], ''UNKNOWN1'' @ [CHR 0x0A]])
            ''HMDB'' ''db.sqlite'' ''mbroleplus'' ''in.txt'' ''./out.txt'' ''/dev/stdout''
            ''database'') = Inr True
   \<and> snd (parse_input_file (host scenario [''C001'' @ [CHR 0x0A], ''UNKNOWN1'' @ [CHR 0x0A]])
            ''in.txt'' False) = Inr [''C001'', ''UNKNOWN1'']
   \<and> snd (convert (host scenario [''C001'' @ [CHR 0x0A], ''UNKNOWN1'' @ [CHR 0x0A]])
            [''C001'', ''UNKNOWN1''] ''db.sqlite'' ''mbroleplus'' ''HMDB'' ''database'')
       = Inr ([(''C001'', ''HMDB0001'')], {''UNKNOWN1''})
   \<and> snd (main (host scenario [''C001'' @ [CHR 0x0A], ''UNKNOWN1'' @ [CHR 0x0A]])
            (cli ''HMDB'')) = Inr ()
   \<and> exit_code (snd (main (host scenario [''C001'' @ [CHR 0x0A], ''UNKNOWN1'' @ [CHR 0x0A]])
                        (cli ''HMDB''))) = 0"
proof -
  let ?w = "host scenario [''C001'' @ [CHR 0x0A], ''UNKNOWN1'' @ [CHR 0x0A]]"
  have v0: "snd (validation (host scenario []) ''XX'' ''db.sqlite'' ''mbroleplus'' ''in.txt''
                   ''./out.txt'' ''/dev/stdout'' ''database'') = Inr False"
    by (simp add: run_simps main_simps)
  have l: "snd (parse_loglevel ''info'') = Inr INFO"
    by (simp add: parse_loglevel_def)
  have v1: "snd (validation ?w ''HMDB'' ''db.sqlite'' ''mbroleplus'' ''in.txt'' ''./out.txt''
                   ''/dev/stdout'' ''database'') = Inr True"
    by (simp add: run_simps main_simps)
  have p: "snd (parse_input_file ?w ''in.txt'' False) = Inr [''C001'', ''UNKNOWN1'']"
    by (simp add: parse_input_file_def host_def strip_def)
  have c: "snd (convert ?w [''C001'', ''UNKNOWN1''] ''db.sqlite'' ''mbroleplus'' ''HMDB''
                  ''database'') = Inr ([(''C001'', ''HMDB0001'')], {''UNKNOWN1''})"
    by (simp add: run_simps)
  have o: "writable ?w ''./out.txt''" "writable ?w ''discarded.txt''"
    by (simp_all add: host_def)
  from main_exit_status[of "host scenario []" "cli ''XX''"] v0
  have r0: "exit_code (snd (main (host scenario []) (cli ''XX''))) \<noteq> 0"
    and r1: "filter is_resolution (fst (main (host scenario []) (cli ''XX''))) = []"
    by (simp_all add: cli_def)
  have e: "exit_code (snd (main (host scenario []) (cli ''XX''))) = 1"
    by (simp add: run_simps main_simps)
  from main_exit_status[of ?w "cli ''HMDB''" INFO "[''C001'', ''UNKNOWN1'']"
         "[(''C001'', ''HMDB0001'')]" "{''UNKNOWN1''}"] l v1 p c o
  have r2: "snd (main ?w (cli ''HMDB'')) = Inr ()"
    and r3: "exit_code (snd (main ?w (cli ''HMDB''))) = 0"
    by (simp_all add: cli_def)
  from v0 e r1 v1 p c r2 r3 show ?thesis
    by (simp only: simp_thms)
qed

end
